theory Spec2Isabelle
  imports
    Complex_Main
    "HOL-Library.Char_ord"
    "HOL-Library.List_Lexorder"
    "HOL-Library.Product_Lexorder"
begin

section \<open>HomeHero: the booking and review rules of the REST backend\<close>

text \<open>
  The repository holds several near-identical copies of one Express application:
  \<^verbatim>\<open>index.js\<close> (printed in \<^verbatim>\<open>src/README.md\<close>) and copies of \<^verbatim>\<open>server.js\<close> (in
  \<^verbatim>\<open>src/README.md\<close> and \<^verbatim>\<open>src/server.js\<close>).  Every handler below is the translation of
  the JavaScript handler of the same route.  The copies agree on every handler they share
  except at one expression of the review handler, which is kept as the parameter
  \<open>variant\<close>.

  Documents are JSON objects: partial maps from field names to values.  A handler takes
  the request and the two collections and returns the response together with the
  collections after its writes; a \<^verbatim>\<open>catch\<close> block is the branch that answers 500.

  What is taken for granted about a request: its body is a JSON object, its query
  parameters are strings, and the \<^verbatim>\<open>email\<close> claim of a verified token is a string.
\<close>

subsection \<open>Values and documents\<close>

datatype oid = Oid nat

text \<open>
  A review object, over the type of the values its fields hold.  A field the handler
  leaves \<^verbatim>\<open>undefined\<close> is \<open>None\<close>.
\<close>

datatype 'v review =
  Review (userEmail: string) (userName: 'v) (rating: 'v) (comment: "'v option") (date: nat)

text \<open>
  The values a field can hold.  A number is a finite one (\<open>VNum\<close>, its value a
  rational), NaN or an infinity; the arithmetic on numbers is the library's, with its
  rounding (see \<open>lib\<close> below).  The only arrays are arrays of review objects, the one
  array the handlers build.
\<close>

datatype val =
    VNull
  | VBool bool
  | VNum rat
  | VNaN
  | VPosInf
  | VNegInf
  | VStr string
  | VDate nat
  | VOid oid
  | VReviews "val review list"

type_synonym doc = "string \<rightharpoonup> val"

record db =
  servicesCollection :: "doc list"
  bookingsCollection :: "doc list"

text \<open>
  What the handlers use of their libraries, taken as parameters: the constructor
  \<^verbatim>\<open>new ObjectId(x)\<close> (\<open>None\<close> when it throws), \<^verbatim>\<open>jwt.verify\<close> (the decoded
  \<^verbatim>\<open>email\<close> claim, \<open>None\<close> when verification fails), \<^verbatim>\<open>parseFloat\<close> (its result a
  number: finite, NaN or infinite), \<^verbatim>\<open>parseInt\<close>, the operators \<^verbatim>\<open>+\<close> and \<^verbatim>\<open>/\<close> of
  JavaScript on two values (floating-point arithmetic on two numbers),
  the case-insensitive \<^verbatim>\<open>$regex\<close> match (from the pattern to the matcher, \<open>None\<close> when
  the server rejects the pattern), and the shape of the value \<^verbatim>\<open>findOneAndUpdate\<close>
  resolves to, which depends on the installed driver.
\<close>

datatype result_shape = Document | ModifyResult

record lib =
  new_ObjectId :: "val option \<Rightarrow> oid option"
  jwt_verify :: "string \<Rightarrow> string option"
  parseFloat :: "val option \<Rightarrow> val"
  js_add :: "val \<Rightarrow> val \<Rightarrow> val"
  js_div :: "val \<Rightarrow> val \<Rightarrow> val"
  parseInt :: "string \<Rightarrow> int"
  regex_i :: "string \<Rightarrow> (string \<Rightarrow> bool) option"
  findOneAndUpdate_returns :: result_shape

record request =
  authorization :: "string option"
  decoded_email :: string
  params_id :: string
  query :: "string \<Rightarrow> string option"
  body :: doc

datatype payload =
    Services "doc list"
  | InsertOneResult val
  | UpdateResult nat
  | DeleteResult nat
  | Success string

datatype response = Send payload | Status nat string

text \<open>The specification's names for the status codes (its sections 6 and 7).\<close>

datatype error_kind = Unauthenticated | Forbidden | NotFound | InvalidOperation | Internal

definition status_kind :: "nat \<Rightarrow> error_kind option" where
  "status_kind c =
     (if c = 401 then Some Unauthenticated
      else if c = 403 then Some Forbidden
      else if c = 404 then Some NotFound
      else if c = 400 then Some InvalidOperation
      else if c = 500 then Some Internal
      else None)"

fun fails_with :: "error_kind \<Rightarrow> response \<Rightarrow> bool" where
  "fails_with k (Status c m) = (status_kind c = Some k)"
| "fails_with k (Send p) = False"

subsection \<open>JavaScript operators\<close>

text \<open>
  \<^verbatim>\<open>a === b\<close> on two field reads; \<open>None\<close> is \<^verbatim>\<open>undefined\<close>.  NaN is identical to
  nothing.  Dates, ObjectIds and arrays are objects, and two objects read from different
  documents are never identical.
\<close>

fun strict_eq :: "val option \<Rightarrow> val option \<Rightarrow> bool" where
  "strict_eq None b = (b = None)"
| "strict_eq (Some VNull) b = (b = Some VNull)"
| "strict_eq (Some (VBool x)) b = (b = Some (VBool x))"
| "strict_eq (Some (VNum x)) b = (b = Some (VNum x))"
| "strict_eq (Some VNaN) b = False"
| "strict_eq (Some VPosInf) b = (b = Some VPosInf)"
| "strict_eq (Some VNegInf) b = (b = Some VNegInf)"
| "strict_eq (Some (VStr x)) b = (b = Some (VStr x))"
| "strict_eq (Some (VDate t)) b = False"
| "strict_eq (Some (VOid i)) b = False"
| "strict_eq (Some (VReviews rs)) b = False"

text \<open>Truthiness of a field read, as \<^verbatim>\<open>||\<close> tests it.\<close>

fun js_truthy :: "val option \<Rightarrow> bool" where
  "js_truthy None = False"
| "js_truthy (Some VNull) = False"
| "js_truthy (Some (VBool b)) = b"
| "js_truthy (Some (VNum x)) = (x \<noteq> 0)"
| "js_truthy (Some VNaN) = False"
| "js_truthy (Some (VStr s)) = (s \<noteq> [])"
| "js_truthy (Some _) = True"

text \<open>Truthiness of a query-string parameter: present and not the empty string.\<close>

fun truthy :: "string option \<Rightarrow> bool" where
  "truthy None = False"
| "truthy (Some s) = (s \<noteq> [])"

text \<open>\<^verbatim>\<open>s.split(" ")\<close> and the read of index 1 of its result.\<close>

fun split_space :: "string \<Rightarrow> string list" where
  "split_space [] = [[]]"
| "split_space (c # cs) =
     (if c = CHR '' '' then [] # split_space cs
      else (case split_space cs of [] \<Rightarrow> [[c]] | w # ws \<Rightarrow> (c # w) # ws))"

fun second :: "'a list \<Rightarrow> 'a option" where
  "second (x # y # ys) = Some y"
| "second _ = None"

subsection \<open>The document store\<close>

text \<open>
  Query filters, for the forms the handlers build.  An equality filter matches a field
  that holds the value; one whose value is \<^verbatim>\<open>undefined\<close> is sent as \<^verbatim>\<open>null\<close>, which also
  matches a missing field.
\<close>

fun q_eq :: "string \<Rightarrow> val option \<Rightarrow> doc \<Rightarrow> bool" where
  "q_eq k None d = (d k = None \<or> d k = Some VNull)"
| "q_eq k (Some VNull) d = (d k = None \<or> d k = Some VNull)"
| "q_eq k (Some v) d = (d k = Some v)"

definition q_ne :: "string \<Rightarrow> val option \<Rightarrow> doc \<Rightarrow> bool" where
  "q_ne k v d = (\<not> q_eq k v d)"

definition q_in :: "string \<Rightarrow> val list \<Rightarrow> doc \<Rightarrow> bool" where
  "q_in k vs d = list_ex (\<lambda>v. q_eq k (Some v) d) vs"

text \<open>
  The sort order of the store on one field: values of different kinds are ordered by
  kind (missing and null first, then numbers, strings, arrays, identifiers, booleans,
  dates), values of one kind by value, NaN below every other number.  Arrays are ranked as
  one block.
\<close>

fun bson_key :: "val option \<Rightarrow> nat \<times> rat \<times> string" where
  "bson_key None = (1, 0, [])"
| "bson_key (Some VNull) = (1, 0, [])"
| "bson_key (Some VNaN) = (2, 0, [])"
| "bson_key (Some VNegInf) = (3, 0, [])"
| "bson_key (Some (VNum x)) = (4, x, [])"
| "bson_key (Some VPosInf) = (5, 0, [])"
| "bson_key (Some (VStr s)) = (6, 0, s)"
| "bson_key (Some (VReviews rs)) = (7, 0, [])"
| "bson_key (Some (VOid (Oid n))) = (8, of_nat n, [])"
| "bson_key (Some (VBool b)) = (9, (if b then 1 else 0), [])"
| "bson_key (Some (VDate t)) = (10, of_nat t, [])"

fun is_number :: "val \<Rightarrow> bool" where
  "is_number (VNum x) = True"
| "is_number VNaN = True"
| "is_number VPosInf = True"
| "is_number VNegInf = True"
| "is_number _ = False"

text \<open>
  \<^verbatim>\<open>{k: {$gte: x}}\<close> and \<^verbatim>\<open>{k: {$lte: x}}\<close> for a number \<open>x\<close>: the field holds a number
  that compares so; when either is NaN they match only if both are.
\<close>

definition q_gte :: "string \<Rightarrow> val \<Rightarrow> doc \<Rightarrow> bool" where
  "q_gte k x d =
     (case d k of
        None \<Rightarrow> False
      | Some y \<Rightarrow>
          is_number y \<and> (if x = VNaN \<or> y = VNaN then x = y
                          else bson_key (Some x) \<le> bson_key (Some y)))"

definition q_lte :: "string \<Rightarrow> val \<Rightarrow> doc \<Rightarrow> bool" where
  "q_lte k x d =
     (case d k of
        None \<Rightarrow> False
      | Some y \<Rightarrow>
          is_number y \<and> (if x = VNaN \<or> y = VNaN then x = y
                          else bson_key (Some y) \<le> bson_key (Some x)))"

definition q_regex :: "(string \<Rightarrow> bool) \<Rightarrow> string \<Rightarrow> doc \<Rightarrow> bool" where
  "q_regex m k d = (case d k of Some (VStr s) \<Rightarrow> m s | _ \<Rightarrow> False)"

definition by_id :: "oid \<Rightarrow> doc \<Rightarrow> bool" where
  "by_id i = q_eq ''_id'' (Some (VOid i))"

definition findOne :: "(doc \<Rightarrow> bool) \<Rightarrow> doc list \<Rightarrow> doc option" where
  "findOne q c = List.find q c"

text \<open>
  \<^verbatim>\<open>insertOne\<close>: a document without \<^verbatim>\<open>_id\<close> gets the identifier the driver generates
  (the argument \<open>fresh\<close>); the unique index on \<^verbatim>\<open>_id\<close> rejects a second document with
  the same identifier, and an array is no identifier.
\<close>

fun is_array :: "val \<Rightarrow> bool" where
  "is_array (VReviews rs) = True"
| "is_array _ = False"

definition insertOne :: "oid \<Rightarrow> doc \<Rightarrow> doc list \<Rightarrow> (val \<times> doc list) option" where
  "insertOne fresh d c =
     (let i = (case d ''_id'' of None \<Rightarrow> VOid fresh | Some VNull \<Rightarrow> VOid fresh | Some v \<Rightarrow> v)
      in if list_ex (\<lambda>e. e ''_id'' = Some i) c \<or> is_array i then None
         else Some (i, c @ [d(''_id'' \<mapsto> i)]))"

fun updateFirst :: "(doc \<Rightarrow> bool) \<Rightarrow> (doc \<Rightarrow> doc) \<Rightarrow> doc list \<Rightarrow> doc list" where
  "updateFirst q f [] = []"
| "updateFirst q f (d # ds) = (if q d then f d # ds else d # updateFirst q f ds)"

text \<open>
  \<^verbatim>\<open>updateOne(filter, {$set: u})\<close> on the first document that matches: the fields of
  \<open>u\<close> overwrite, the others stay.  Field names are top-level keys (a dotted name, which
  the store reads as a path into a nested value, is outside the model).
\<close>

definition updateOne_set :: "(doc \<Rightarrow> bool) \<Rightarrow> doc \<Rightarrow> doc list \<Rightarrow> doc list" where
  "updateOne_set q u c = updateFirst q (\<lambda>d. d ++ u) c"

definition matchedCount :: "(doc \<Rightarrow> bool) \<Rightarrow> doc list \<Rightarrow> nat" where
  "matchedCount q c = (if list_ex q c then 1 else 0)"

fun deleteOne :: "(doc \<Rightarrow> bool) \<Rightarrow> doc list \<Rightarrow> doc list" where
  "deleteOne q [] = []"
| "deleteOne q (d # ds) = (if q d then ds else d # deleteOne q ds)"

definition deleteMany :: "(doc \<Rightarrow> bool) \<Rightarrow> doc list \<Rightarrow> doc list" where
  "deleteMany q c = filter (\<lambda>d. \<not> q d) c"

text \<open>
  \<^verbatim>\<open>{$push: {reviews: r}}\<close> on one document: a missing field becomes a one-element
  array, an array is extended, and the server rejects any other value (\<open>None\<close>).
\<close>

definition push_review :: "val review \<Rightarrow> doc \<Rightarrow> doc option" where
  "push_review r d =
     (case d ''reviews'' of
        None \<Rightarrow> Some (d(''reviews'' \<mapsto> VReviews [r]))
      | Some (VReviews rs) \<Rightarrow> Some (d(''reviews'' \<mapsto> VReviews (rs @ [r])))
      | Some _ \<Rightarrow> None)"

text \<open>
  \<^verbatim>\<open>findOneAndUpdate(filter, {$push: {reviews: r}}, {returnDocument: "after"})\<close>:
  \<open>None\<close> when the server rejects the update, otherwise the document after the update
  (\<open>None\<close> inside when no document matched) and the collection.
\<close>

definition findOneAndUpdate_push ::
  "(doc \<Rightarrow> bool) \<Rightarrow> val review \<Rightarrow> doc list \<Rightarrow> (doc option \<times> doc list) option" where
  "findOneAndUpdate_push q r c =
     (case findOne q c of
        None \<Rightarrow> Some (None, c)
      | Some d \<Rightarrow>
          (case push_review r d of
             None \<Rightarrow> None
           | Some d' \<Rightarrow> Some (Some d', updateFirst q (\<lambda>_. d') c)))"

text \<open>\<^verbatim>\<open>cursor.sort({k: 1})\<close> and \<^verbatim>\<open>cursor.sort({k: -1})\<close>.\<close>

definition sort_asc :: "string \<Rightarrow> doc list \<Rightarrow> doc list" where
  "sort_asc k c = sort_key (\<lambda>d. bson_key (d k)) c"

definition sort_desc :: "string \<Rightarrow> doc list \<Rightarrow> doc list" where
  "sort_desc k c = rev (sort_key (\<lambda>d. bson_key (d k)) c)"

text \<open>\<^verbatim>\<open>cursor.limit(n)\<close>: zero means no limit, a negative number counts as its absolute value.\<close>

definition limit_cursor :: "int \<Rightarrow> doc list \<Rightarrow> doc list" where
  "limit_cursor n c = (if n = 0 then c else take (nat \<bar>n\<bar>) c)"

subsection \<open>The access guard\<close>

text \<open>
  \<^verbatim>\<open>verifyJWT\<close>: no header answers 401, a token that does not verify answers 403,
  otherwise the decoded identity is attached to the request and the handler runs.
\<close>

definition verifyJWT ::
  "lib \<Rightarrow> (request \<Rightarrow> db \<Rightarrow> response \<times> db) \<Rightarrow> request \<Rightarrow> db \<Rightarrow> response \<times> db" where
  "verifyJWT L next req s =
     (case authorization req of
        None \<Rightarrow> (Status 401 ''Unauthorized access'', s)
      | Some a \<Rightarrow>
          if a = [] then (Status 401 ''Unauthorized access'', s)
          else
            (case second (split_space a) of
               None \<Rightarrow> (Status 403 ''Forbidden access'', s)
             | Some token \<Rightarrow>
                 (case jwt_verify L token of
                    None \<Rightarrow> (Status 403 ''Forbidden access'', s)
                  | Some e \<Rightarrow> next (req\<lparr>decoded_email := e\<rparr>) s)))"

subsection \<open>Catalog handlers\<close>

text \<open>\<^verbatim>\<open>GET /services\<close>: filter, sort, limit.\<close>

definition services_query :: "request \<Rightarrow> (string \<Rightarrow> bool) \<Rightarrow> val \<Rightarrow> val \<Rightarrow> doc \<Rightarrow> bool" where
  "services_query req m lo hi d =
     ((truthy (query req ''category'') \<and> query req ''category'' \<noteq> Some ''all''
          \<longrightarrow> q_eq ''category'' (map_option VStr (query req ''category'')) d)
      \<and> (truthy (query req ''minPrice'') \<longrightarrow> q_gte ''price'' lo d)
      \<and> (truthy (query req ''maxPrice'') \<longrightarrow> q_lte ''price'' hi d)
      \<and> (truthy (query req ''search'')
          \<longrightarrow> q_regex m ''serviceName'' d \<or> q_regex m ''category'' d \<or> q_regex m ''description'' d))"

definition sort_cursor :: "string option \<Rightarrow> doc list \<Rightarrow> doc list" where
  "sort_cursor sortBy cursor =
     (if sortBy = Some ''price-asc'' then sort_asc ''price'' cursor
      else if sortBy = Some ''price-desc'' then sort_desc ''price'' cursor
      else if sortBy = Some ''rating'' then sort_desc ''averageRating'' cursor
      else cursor)"

definition list_services :: "lib \<Rightarrow> request \<Rightarrow> db \<Rightarrow> response \<times> db" where
  "list_services L req s =
     (let search = query req ''search'';
          limit = query req ''limit'';
          lo = parseFloat L (map_option VStr (query req ''minPrice''));
          hi = parseFloat L (map_option VStr (query req ''maxPrice''))
      in case (if truthy search then regex_i L (case search of Some p \<Rightarrow> p | None \<Rightarrow> [])
               else Some (\<lambda>_. True)) of
           None \<Rightarrow> (Status 500 ''Failed to fetch services'', s)
         | Some m \<Rightarrow>
             (let cursor = filter (services_query req m lo hi) (servicesCollection s);
                  cursor = sort_cursor (query req ''sortBy'') cursor;
                  cursor = (case limit of
                              None \<Rightarrow> cursor
                            | Some l \<Rightarrow> if l = [] then cursor else limit_cursor (parseInt L l) cursor)
              in (Send (Services cursor), s)))"

text \<open>\<^verbatim>\<open>GET /my-services\<close>: the requested email must be the decoded identity.\<close>

definition my_services :: "request \<Rightarrow> db \<Rightarrow> response \<times> db" where
  "my_services req s =
     (let email = query req ''email'' in
      if Some (decoded_email req) \<noteq> email then (Status 403 ''Forbidden access'', s)
      else (Send (Services (filter (q_eq ''providerEmail'' (map_option VStr email))
                              (servicesCollection s))), s))"

text \<open>\<^verbatim>\<open>POST /services\<close>.\<close>

definition create_service :: "nat \<Rightarrow> oid \<Rightarrow> request \<Rightarrow> db \<Rightarrow> response \<times> db" where
  "create_service now fresh req s =
     (let service = body req;
          service = service(''createdAt'' \<mapsto> VDate now);
          service = service(''averageRating'' \<mapsto> VNum (9 / 2));
          service = service(''reviews'' \<mapsto> VReviews [])
      in case insertOne fresh service (servicesCollection s) of
           None \<Rightarrow> (Status 500 ''Failed to add service'', s)
         | Some (i, c) \<Rightarrow> (Send (InsertOneResult i), s\<lparr>servicesCollection := c\<rparr>))"

text \<open>
  \<^verbatim>\<open>PATCH /services/:id\<close>.  The ownership test compares the stored provider email
  with the \<^verbatim>\<open>email\<close> parameter of the query string.
\<close>

definition update_service :: "lib \<Rightarrow> nat \<Rightarrow> request \<Rightarrow> db \<Rightarrow> response \<times> db" where
  "update_service L now req s =
     (let ident = params_id req;
          updateData = body req;
          email = query req ''email''
      in case new_ObjectId L (Some (VStr ident)) of
           None \<Rightarrow> (Status 500 ''Failed to update service'', s)
         | Some i \<Rightarrow>
             (case findOne (by_id i) (servicesCollection s) of
                None \<Rightarrow> (Status 403 ''Forbidden access'', s)
              | Some service \<Rightarrow>
                  if \<not> strict_eq (service ''providerEmail'') (map_option VStr email)
                  then (Status 403 ''Forbidden access'', s)
                  else
                    (let updateData = updateData(''_id'' := None);
                         updateData = updateData(''updatedAt'' \<mapsto> VDate now)
                     in (Send (UpdateResult (matchedCount (by_id i) (servicesCollection s))),
                         s\<lparr>servicesCollection :=
                              updateOne_set (by_id i) updateData (servicesCollection s)\<rparr>))))"

text \<open>
  \<^verbatim>\<open>DELETE /services/:id\<close>: the same ownership test, then the two writes in the
  order of the source, each on the state the previous one left.
\<close>

definition delete_related_bookings :: "string \<Rightarrow> db \<Rightarrow> db" where
  "delete_related_bookings ident s =
     s\<lparr>bookingsCollection :=
         deleteMany (q_eq ''serviceId'' (Some (VStr ident))) (bookingsCollection s)\<rparr>"

definition delete_service_document :: "oid \<Rightarrow> db \<Rightarrow> db" where
  "delete_service_document i s =
     s\<lparr>servicesCollection := deleteOne (by_id i) (servicesCollection s)\<rparr>"

definition delete_service :: "lib \<Rightarrow> request \<Rightarrow> db \<Rightarrow> response \<times> db" where
  "delete_service L req s =
     (let ident = params_id req;
          email = query req ''email''
      in case new_ObjectId L (Some (VStr ident)) of
           None \<Rightarrow> (Status 500 ''Failed to delete service'', s)
         | Some i \<Rightarrow>
             (case findOne (by_id i) (servicesCollection s) of
                None \<Rightarrow> (Status 403 ''Forbidden access'', s)
              | Some service \<Rightarrow>
                  if \<not> strict_eq (service ''providerEmail'') (map_option VStr email)
                  then (Status 403 ''Forbidden access'', s)
                  else
                    (let s1 = delete_related_bookings ident s;
                         s2 = delete_service_document i s1
                     in (Send (DeleteResult (matchedCount (by_id i) (servicesCollection s1))), s2))))"

subsection \<open>Booking and rating handlers\<close>

text \<open>
  \<^verbatim>\<open>POST /bookings\<close>.  Reading \<^verbatim>\<open>providerEmail\<close> of a service that was not found
  throws, which the \<^verbatim>\<open>catch\<close> block answers with 500.
\<close>

definition existing_booking :: "doc \<Rightarrow> doc \<Rightarrow> bool" where
  "existing_booking booking b =
     (q_eq ''userEmail'' (booking ''userEmail'') b
      \<and> q_eq ''serviceId'' (booking ''serviceId'') b
      \<and> q_ne ''status'' (Some (VStr ''cancelled'')) b)"

definition create_booking :: "lib \<Rightarrow> nat \<Rightarrow> oid \<Rightarrow> request \<Rightarrow> db \<Rightarrow> response \<times> db" where
  "create_booking L now fresh req s =
     (let booking = body req in
      case new_ObjectId L (booking ''serviceId'') of
        None \<Rightarrow> (Status 500 ''Failed to create booking'', s)
      | Some i \<Rightarrow>
          (case findOne (by_id i) (servicesCollection s) of
             None \<Rightarrow> (Status 500 ''Failed to create booking'', s)
           | Some service \<Rightarrow>
               if strict_eq (service ''providerEmail'') (booking ''userEmail'')
               then (Status 400 ''You cannot book your own service'', s)
               else
                 (case findOne (existing_booking booking) (bookingsCollection s) of
                    Some existingBooking \<Rightarrow> (Status 400 ''You have already booked this service'', s)
                  | None \<Rightarrow>
                      (let booking = booking(''createdAt'' \<mapsto> VDate now);
                           booking = booking(''status'' \<mapsto> VStr ''pending'')
                       in case insertOne fresh booking (bookingsCollection s) of
                            None \<Rightarrow> (Status 500 ''Failed to create booking'', s)
                          | Some (i', c) \<Rightarrow>
                              (Send (InsertOneResult i'), s\<lparr>bookingsCollection := c\<rparr>)))))"

text \<open>
  \<^verbatim>\<open>POST /services/:id/review\<close>.  The two copies of the handler differ in one
  expression: \<^verbatim>\<open>index.js\<close> reads \<^verbatim>\<open>updatedService.reviews\<close>, \<^verbatim>\<open>server.js\<close> reads
  \<^verbatim>\<open>updatedService.value.reviews\<close>.  The local \<^verbatim>\<open>userEmail\<close> of the source is
  \<open>email\<close> here, \<open>userEmail\<close> being the field of a review.
\<close>

datatype variant = IndexJs | ServerJs

definition qualifying_booking :: "string \<Rightarrow> string \<Rightarrow> doc \<Rightarrow> bool" where
  "qualifying_booking email serviceId b =
     (q_eq ''userEmail'' (Some (VStr email)) b
      \<and> q_eq ''serviceId'' (Some (VStr serviceId)) b
      \<and> q_in ''status'' [VStr ''completed'', VStr ''pending''] b)"

text \<open>
  \<^verbatim>\<open>service.reviews?.some((review) => review.userEmail === userEmail)\<close>; \<open>None\<close> is
  the TypeError of calling \<^verbatim>\<open>some\<close> on a value that has none.
\<close>

definition hasReviewed :: "doc \<Rightarrow> string \<Rightarrow> bool option" where
  "hasReviewed service email =
     (case service ''reviews'' of
        None \<Rightarrow> Some False
      | Some VNull \<Rightarrow> Some False
      | Some (VReviews rs) \<Rightarrow> Some (list_ex (\<lambda>review. userEmail review = email) rs)
      | Some _ \<Rightarrow> None)"

text \<open>
  The read of the reviews of the value \<^verbatim>\<open>findOneAndUpdate\<close> resolved to; the outer
  \<open>None\<close> is the TypeError of reading a property of \<^verbatim>\<open>null\<close> or \<^verbatim>\<open>undefined\<close>.
\<close>

fun updated_reviews :: "variant \<Rightarrow> result_shape \<Rightarrow> doc option \<Rightarrow> val option option" where
  "updated_reviews IndexJs Document None = None"
| "updated_reviews IndexJs Document (Some d) = Some (d ''reviews'')"
| "updated_reviews IndexJs ModifyResult _ = Some None"
| "updated_reviews ServerJs ModifyResult None = None"
| "updated_reviews ServerJs ModifyResult (Some d) = Some (d ''reviews'')"
| "updated_reviews ServerJs Document None = None"
| "updated_reviews ServerJs Document (Some d) =
     (case d ''value'' of None \<Rightarrow> None | Some VNull \<Rightarrow> None | Some _ \<Rightarrow> Some None)"

text \<open>
  The review object the handler builds: \<^verbatim>\<open>userName: req.body.userName || "Anonymous"\<close>,
  \<^verbatim>\<open>rating: parseFloat(rating)\<close>, and the comment as the body has it.
\<close>

definition new_review :: "lib \<Rightarrow> nat \<Rightarrow> request \<Rightarrow> val review" where
  "new_review L now req =
     Review (decoded_email req)
       (case body req ''userName'' of
          None \<Rightarrow> VStr ''Anonymous''
        | Some n \<Rightarrow> if js_truthy (Some n) then n else VStr ''Anonymous'')
       (parseFloat L (body req ''rating''))
       (body req ''comment'')
       now"

definition add_review :: "variant \<Rightarrow> lib \<Rightarrow> nat \<Rightarrow> request \<Rightarrow> db \<Rightarrow> response \<times> db" where
  "add_review v L now req s =
     (let serviceId = params_id req;
          email = decoded_email req
      in case findOne (qualifying_booking email serviceId) (bookingsCollection s) of
           None \<Rightarrow> (Status 403 ''You must book this service before reviewing'', s)
         | Some booking \<Rightarrow>
          (case new_ObjectId L (Some (VStr serviceId)) of
             None \<Rightarrow> (Status 500 ''Failed to add review'', s)
           | Some i \<Rightarrow>
            (case findOne (by_id i) (servicesCollection s) of
               None \<Rightarrow> (Status 500 ''Failed to add review'', s)
             | Some service \<Rightarrow>
              (case hasReviewed service email of
                 None \<Rightarrow> (Status 500 ''Failed to add review'', s)
               | Some True \<Rightarrow> (Status 400 ''You have already reviewed this service'', s)
               | Some False \<Rightarrow>
                (case findOneAndUpdate_push (by_id i) (new_review L now req) (servicesCollection s) of
                   None \<Rightarrow> (Status 500 ''Failed to add review'', s)
                 | Some (updatedService, c) \<Rightarrow>
                  (let s1 = s\<lparr>servicesCollection := c\<rparr> in
                   case updated_reviews v (findOneAndUpdate_returns L) updatedService of
                     None \<Rightarrow> (Status 500 ''Failed to add review'', s1)
                   | Some (Some (VReviews rs)) \<Rightarrow>
                       if length rs > 0 then
                         (let totalRating = foldl (\<lambda>sum r. js_add L sum (rating r)) (VNum 0) rs;
                              averageRating = js_div L totalRating (VNum (of_nat (length rs)))
                          in (Send (Success ''Review added successfully''),
                              s1\<lparr>servicesCollection :=
                                    updateOne_set (by_id i) [''averageRating'' \<mapsto> averageRating]
                                      (servicesCollection s1)\<rparr>))
                       else (Send (Success ''Review added successfully''), s1)
                   | Some (Some (VStr str)) \<Rightarrow>
                       if str \<noteq> [] then (Status 500 ''Failed to add review'', s1)
                       else (Send (Success ''Review added successfully''), s1)
                   | Some _ \<Rightarrow> (Send (Success ''Review added successfully''), s1)))))))"

subsection \<open>Routes\<close>

definition PATCH_service :: "lib \<Rightarrow> nat \<Rightarrow> request \<Rightarrow> db \<Rightarrow> response \<times> db" where
  "PATCH_service L now = verifyJWT L (update_service L now)"

definition DELETE_service :: "lib \<Rightarrow> request \<Rightarrow> db \<Rightarrow> response \<times> db" where
  "DELETE_service L = verifyJWT L (delete_service L)"

definition GET_my_services :: "lib \<Rightarrow> request \<Rightarrow> db \<Rightarrow> response \<times> db" where
  "GET_my_services L = verifyJWT L my_services"

definition POST_bookings :: "lib \<Rightarrow> nat \<Rightarrow> oid \<Rightarrow> request \<Rightarrow> db \<Rightarrow> response \<times> db" where
  "POST_bookings L now fresh = verifyJWT L (create_booking L now fresh)"

definition POST_review :: "variant \<Rightarrow> lib \<Rightarrow> nat \<Rightarrow> request \<Rightarrow> db \<Rightarrow> response \<times> db" where
  "POST_review v L now = verifyJWT L (add_review v L now)"

subsection \<open>Notions used in the statements\<close>

text \<open>The review list of a service document (empty when the field holds no array).\<close>

definition reviews_of :: "doc \<Rightarrow> val review list" where
  "reviews_of d = (case d ''reviews'' of Some (VReviews rs) \<Rightarrow> rs | _ \<Rightarrow> [])"

text \<open>
  A copy of the review handler reads the document after the update when its expression
  fits the shape the driver returns: \<^verbatim>\<open>updatedService.reviews\<close> for a driver that
  resolves to the document, \<^verbatim>\<open>updatedService.value.reviews\<close> for one that wraps it.
\<close>

definition reads_updated_document :: "variant \<Rightarrow> result_shape \<Rightarrow> bool" where
  "reads_updated_document v sh =
     (v = IndexJs \<and> sh = Document \<or> v = ServerJs \<and> sh = ModifyResult)"

text \<open>
  The mean of a list of values as JavaScript computes it: the sum from zero, divided by
  the length.
\<close>

definition js_mean :: "lib \<Rightarrow> val list \<Rightarrow> val" where
  "js_mean L xs = js_div L (foldl (js_add L) (VNum 0) xs) (VNum (of_nat (length xs)))"

text \<open>The order of a list of documents on one field, in the sort order of the store.\<close>

definition ascending_by :: "string \<Rightarrow> doc list \<Rightarrow> bool" where
  "ascending_by k xs = sorted_wrt (\<lambda>d e. bson_key (d k) \<le> bson_key (e k)) xs"

definition descending_by :: "string \<Rightarrow> doc list \<Rightarrow> bool" where
  "descending_by k xs = sorted_wrt (\<lambda>d e. bson_key (e k) \<le> bson_key (d k)) xs"

text \<open>A review list holds at most one review for one reviewer email.\<close>

definition one_review_per_reviewer :: "doc \<Rightarrow> bool" where
  "one_review_per_reviewer d = distinct (map userEmail (reviews_of d))"

subsection \<open>Example data\<close>

text \<open>
  An arithmetic for the examples: on two numbers the sum and the quotient without
  rounding (the examples use numbers on which floating-point arithmetic is exact);
  operands that are not numbers do not occur in the examples.
\<close>

definition exact_add :: "val \<Rightarrow> val \<Rightarrow> val" where
  "exact_add a b =
     (case a of
        VNum x \<Rightarrow>
          (case b of VNum y \<Rightarrow> VNum (x + y) | VPosInf \<Rightarrow> VPosInf | VNegInf \<Rightarrow> VNegInf
           | _ \<Rightarrow> VNaN)
      | VPosInf \<Rightarrow> (case b of VNum y \<Rightarrow> VPosInf | VPosInf \<Rightarrow> VPosInf | _ \<Rightarrow> VNaN)
      | VNegInf \<Rightarrow> (case b of VNum y \<Rightarrow> VNegInf | VNegInf \<Rightarrow> VNegInf | _ \<Rightarrow> VNaN)
      | _ \<Rightarrow> VNaN)"

definition exact_div :: "val \<Rightarrow> val \<Rightarrow> val" where
  "exact_div a b =
     (case a of
        VNum x \<Rightarrow>
          (case b of
             VNum y \<Rightarrow>
               if y \<noteq> 0 then VNum (x / y)
               else if x = 0 then VNaN else if 0 < x then VPosInf else VNegInf
           | VPosInf \<Rightarrow> VNum 0
           | VNegInf \<Rightarrow> VNum 0
           | _ \<Rightarrow> VNaN)
      | VPosInf \<Rightarrow> (case b of VNum y \<Rightarrow> if 0 \<le> y then VPosInf else VNegInf | _ \<Rightarrow> VNaN)
      | VNegInf \<Rightarrow> (case b of VNum y \<Rightarrow> if 0 \<le> y then VNegInf else VPosInf | _ \<Rightarrow> VNaN)
      | _ \<Rightarrow> VNaN)"

text \<open>
  The example library.  The identifier constructor reads the hexadecimal digits of a
  string in either case, so one identifier has several spellings; here \<open>s1\<close> and
  \<open>S1\<close> spell the identifier 1.
\<close>

definition lib0 :: lib where
  "lib0 =
     \<lparr>new_ObjectId = (\<lambda>v. if v = Some (VStr ''s1'') \<or> v = Some (VStr ''S1'') then Some (Oid 1)
                           else if v = Some (VStr ''s2'') then Some (Oid 2) else None),
      jwt_verify = (\<lambda>t. if t = ''tok-c'' then Some ''c@x.com''
                         else if t = ''tok-p'' then Some ''p@x.com''
                         else if t = ''tok-m'' then Some ''m@x.com'' else None),
      parseFloat = (\<lambda>v. case v of Some (VNum x) \<Rightarrow> VNum x | _ \<Rightarrow> VNaN),
      js_add = exact_add,
      js_div = exact_div,
      parseInt = (\<lambda>t. 0),
      regex_i = (\<lambda>p. Some (\<lambda>t. True)),
      findOneAndUpdate_returns = Document\<rparr>"

definition serviceA :: doc where
  "serviceA =
     [''_id'' \<mapsto> VOid (Oid 1), ''serviceName'' \<mapsto> VStr ''Plumbing'', ''price'' \<mapsto> VNum 30,
      ''providerEmail'' \<mapsto> VStr ''p@x.com'', ''averageRating'' \<mapsto> VNum (9 / 2),
      ''reviews'' \<mapsto> VReviews []]"

definition serviceB :: doc where
  "serviceB =
     [''_id'' \<mapsto> VOid (Oid 1), ''serviceName'' \<mapsto> VStr ''Plumbing'', ''price'' \<mapsto> VNum 30,
      ''providerEmail'' \<mapsto> VStr ''p@x.com'', ''averageRating'' \<mapsto> VNum 4,
      ''reviews'' \<mapsto> VReviews [Review ''a@x.com'' (VStr ''Ann'') (VNum 4) None 3]]"

definition serviceOther :: doc where
  "serviceOther =
     [''_id'' \<mapsto> VOid (Oid 2), ''serviceName'' \<mapsto> VStr ''Painting'', ''price'' \<mapsto> VNum 80,
      ''providerEmail'' \<mapsto> VStr ''q@x.com'', ''averageRating'' \<mapsto> VNum 5,
      ''reviews'' \<mapsto> VReviews []]"

definition bookingC :: "string \<Rightarrow> doc" where
  "bookingC st =
     [''_id'' \<mapsto> VOid (Oid 10), ''userEmail'' \<mapsto> VStr ''c@x.com'', ''serviceId'' \<mapsto> VStr ''s1'',
      ''status'' \<mapsto> VStr st]"

definition bookingE :: doc where
  "bookingE =
     [''_id'' \<mapsto> VOid (Oid 12), ''userEmail'' \<mapsto> VStr ''c@x.com'', ''serviceId'' \<mapsto> VStr ''s2'',
      ''status'' \<mapsto> VStr ''pending'']"

definition email_query :: "string \<Rightarrow> string \<Rightarrow> string option" where
  "email_query e k = (if k = ''email'' then Some e else None)"

definition req0 :: request where
  "req0 = \<lparr>authorization = None, decoded_email = [], params_id = [], query = (\<lambda>k. None),
            body = Map.empty\<rparr>"

definition reqR :: request where
  "reqR = req0\<lparr>decoded_email := ''c@x.com'', params_id := ''s1'', body := [''rating'' \<mapsto> VNum 5]\<rparr>"

definition reqSelf :: request where
  "reqSelf = req0\<lparr>body := [''serviceId'' \<mapsto> VStr ''s1'', ''userEmail'' \<mapsto> VStr ''p@x.com'']\<rparr>"

definition reqDel :: request where
  "reqDel = req0\<lparr>decoded_email := ''p@x.com'', params_id := ''s1'',
                 query := email_query ''p@x.com''\<rparr>"

definition dbS :: db where
  "dbS = \<lparr>servicesCollection = [serviceA], bookingsCollection = []\<rparr>"

definition dbR :: db where
  "dbR = \<lparr>servicesCollection = [serviceB], bookingsCollection = [bookingC ''pending'']\<rparr>"

definition dbCancelled :: db where
  "dbCancelled = \<lparr>servicesCollection = [serviceA], bookingsCollection = [bookingC ''cancelled'']\<rparr>"

definition dbDel :: db where
  "dbDel = \<lparr>servicesCollection = [serviceA, serviceOther],
            bookingsCollection = [bookingC ''pending'', bookingE]\<rparr>"

definition reqBook :: "string \<Rightarrow> request" where
  "reqBook a = req0\<lparr>authorization := Some a,
                   body := [''serviceId'' \<mapsto> VStr ''s1'', ''userEmail'' \<mapsto> VStr ''c@x.com'']\<rparr>"

definition bookingD :: doc where
  "bookingD =
     [''_id'' \<mapsto> VStr ''b1'', ''userEmail'' \<mapsto> VStr ''d@x.com'', ''serviceId'' \<mapsto> VStr ''s2'',
      ''status'' \<mapsto> VStr ''pending'']"

definition reqDupId :: request where
  "reqDupId = req0\<lparr>body := [''_id'' \<mapsto> VStr ''b1'', ''serviceId'' \<mapsto> VStr ''s1'',
                           ''userEmail'' \<mapsto> VStr ''c@x.com'']\<rparr>"

definition dbD :: db where
  "dbD = \<lparr>servicesCollection = [serviceA], bookingsCollection = [bookingD]\<rparr>"

definition dbBooked :: db where
  "dbBooked = \<lparr>servicesCollection = [serviceA], bookingsCollection = [bookingC ''pending'']\<rparr>"

definition reqPatch :: request where
  "reqPatch = req0\<lparr>decoded_email := ''p@x.com'', params_id := ''s1'',
                   query := email_query ''p@x.com'',
                   body := [''_id'' \<mapsto> VStr ''other'', ''price'' \<mapsto> VNum 45]\<rparr>"

definition reqMallory :: request where
  "reqMallory = req0\<lparr>authorization := Some ''Bearer tok-m'', params_id := ''s1'',
                     query := email_query ''p@x.com'', body := [''price'' \<mapsto> VNum 1]\<rparr>"

definition reqOwner :: request where
  "reqOwner = req0\<lparr>authorization := Some ''Bearer tok-p'', params_id := ''s1''\<rparr>"

definition reqSort :: "string \<Rightarrow> request" where
  "reqSort sel = req0\<lparr>query := (\<lambda>k. if k = ''sortBy'' then Some sel else None)\<rparr>"

definition serviceReviewed :: doc where
  "serviceReviewed =
     [''_id'' \<mapsto> VOid (Oid 1), ''serviceName'' \<mapsto> VStr ''Plumbing'', ''price'' \<mapsto> VNum 30,
      ''providerEmail'' \<mapsto> VStr ''p@x.com'', ''averageRating'' \<mapsto> VNum 5,
      ''reviews'' \<mapsto> VReviews [Review ''c@x.com'' (VStr ''Cy'') (VNum 5) None 3]]"

definition serviceV :: doc where
  "serviceV = serviceB(''value'' \<mapsto> VNum 1)"

definition dbV :: db where
  "dbV = \<lparr>servicesCollection = [serviceV], bookingsCollection = [bookingC ''pending'']\<rparr>"

definition reqBookUpper :: request where
  "reqBookUpper = req0\<lparr>body := [''serviceId'' \<mapsto> VStr ''S1'', ''userEmail'' \<mapsto> VStr ''c@x.com'']\<rparr>"

definition bookingUpper :: doc where
  "bookingUpper =
     [''serviceId'' \<mapsto> VStr ''S1'', ''userEmail'' \<mapsto> VStr ''c@x.com'', ''createdAt'' \<mapsto> VDate 7,
      ''status'' \<mapsto> VStr ''pending'', ''_id'' \<mapsto> VOid (Oid 11)]"

definition dbReviewed :: "doc list \<Rightarrow> db" where
  "dbReviewed bs = \<lparr>servicesCollection = [serviceReviewed], bookingsCollection = bs\<rparr>"

section \<open>Properties\<close>

subsection \<open>Auxiliary facts\<close>

lemmas fixtures =
  lib0_def exact_add_def exact_div_def serviceA_def serviceB_def serviceOther_def serviceReviewed_def
  bookingC_def bookingD_def bookingE_def email_query_def
  req0_def reqR_def reqSelf_def reqDel_def reqBook_def reqDupId_def reqPatch_def reqMallory_def
  reqOwner_def reqSort_def
  dbS_def dbR_def dbCancelled_def dbDel_def dbD_def dbBooked_def dbReviewed_def
  serviceV_def dbV_def reqBookUpper_def bookingUpper_def

lemmas store_defs =
  findOne_def by_id_def q_in_def q_ne_def insertOne_def updateOne_set_def
  findOneAndUpdate_push_def push_review_def deleteMany_def matchedCount_def

lemma findOne_None_iff: "findOne q c = None \<longleftrightarrow> (\<forall>d \<in> set c. \<not> q d)"
  by (auto simp: findOne_def find_None_iff)

lemma findOne_Some_mem: "findOne q c = Some d \<Longrightarrow> d \<in> set c \<and> q d"
  by (induction c) (auto simp: findOne_def split: if_splits)


lemma find_updateFirst:
  "(\<And>d. q d \<Longrightarrow> q (f d)) \<Longrightarrow> findOne q (updateFirst q f c) = map_option f (findOne q c)"
  by (induction c) (auto simp: findOne_def)

lemma deleteOne_length:
  "findOne q c = Some d \<Longrightarrow> Suc (length (deleteOne q c)) = length c"
  by (induction c) (auto simp: findOne_def)

lemma by_id_upd [simp]: "k \<noteq> ''_id'' \<Longrightarrow> by_id i (d(k \<mapsto> x)) = by_id i d"
  by (simp add: by_id_def)

lemma by_id_add [simp]: "u ''_id'' = None \<Longrightarrow> by_id i (d ++ u) = by_id i d"
  by (simp add: by_id_def map_add_def)


lemma foldl_rating:
  "foldl (\<lambda>sum r. js_add L sum (rating r)) a rs = foldl (js_add L) a (map rating rs)"
  by (induction rs arbitrary: a) simp_all

lemma updated_reviews_direct:
  "reads_updated_document v sh \<Longrightarrow> updated_reviews v sh (Some d) = Some (d ''reviews'')"
  by (cases v; cases sh) (simp_all add: reads_updated_document_def)

lemma reviews_of_upd [simp]: "reviews_of (d(''reviews'' \<mapsto> VReviews rs)) = rs"
  by (simp add: reviews_of_def)

lemma reviews_of_other [simp]: "k \<noteq> ''reviews'' \<Longrightarrow> reviews_of (d(k \<mapsto> x)) = reviews_of d"
  by (simp add: reviews_of_def)

lemma push_review_Some:
  assumes "push_review r d = Some d'"
  shows "d' = d(''reviews'' \<mapsto> VReviews (reviews_of d @ [r]))"
  using assms by (auto simp: push_review_def reviews_of_def split: option.splits val.splits)




lemma one_review_avg [simp]:
  "one_review_per_reviewer (d(''averageRating'' \<mapsto> x)) = one_review_per_reviewer d"
  by (simp add: one_review_per_reviewer_def)



lemma create_booking_reads_body:
  "body r' = body r \<Longrightarrow> create_booking L now fresh r' s = create_booking L now fresh r s"
  by (simp add: create_booking_def)

lemma verifyJWT_accepts:
  assumes "authorization r = Some a" and "second (split_space a) = Some t"
    and "jwt_verify L t = Some e"
  shows "verifyJWT L next r s = next (r\<lparr>decoded_email := e\<rparr>) s"
proof -
  have "a \<noteq> []" using assms(2) by auto
  then show ?thesis using assms by (simp add: verifyJWT_def)
qed

lemma bson_key_num_le [simp]:
  "bson_key (Some (VNum a)) \<le> bson_key (Some (VNum b)) \<longleftrightarrow> a \<le> b"
  by (auto simp: less_eq_prod_def)

lemma sort_asc_ascending: "ascending_by k (sort_asc k c)"
  using sorted_sort_key [of "\<lambda>d. bson_key (d k)" c]
  by (simp add: ascending_by_def sort_asc_def sorted_map)

lemma sort_desc_descending: "descending_by k (sort_desc k c)"
  using sorted_sort_key [of "\<lambda>d. bson_key (d k)" c]
  by (simp add: descending_by_def sort_desc_def sorted_map sorted_wrt_rev)

lemma limit_ascending: "ascending_by k c \<Longrightarrow> ascending_by k (limit_cursor n c)"
  by (simp add: ascending_by_def limit_cursor_def sorted_wrt_take)

lemma limit_descending: "descending_by k c \<Longrightarrow> descending_by k (limit_cursor n c)"
  by (simp add: descending_by_def limit_cursor_def sorted_wrt_take)

lemma descending_numbers:
  assumes "descending_by k xs" and "m < n" and "n < length xs"
    and "(xs ! m) k = Some (VNum a)" and "(xs ! n) k = Some (VNum b)"
  shows "b \<le> a"
proof -
  have "bson_key ((xs ! n) k) \<le> bson_key ((xs ! m) k)"
    using assms(1-3) by (simp add: descending_by_def sorted_wrt_iff_nth_less)
  then show ?thesis using assms(4,5) by auto
qed

lemma ascending_numbers:
  assumes "ascending_by k xs" and "m < n" and "n < length xs"
    and "(xs ! m) k = Some (VNum a)" and "(xs ! n) k = Some (VNum b)"
  shows "a \<le> b"
proof -
  have "bson_key ((xs ! m) k) \<le> bson_key ((xs ! n) k)"
    using assms(1-3) by (simp add: ascending_by_def sorted_wrt_iff_nth_less)
  then show ?thesis using assms(4,5) by auto
qed

lemma list_services_result:
  assumes "list_services L req s = (Send (Services xs), s')"
  shows "\<exists>c. xs = sort_cursor (query req ''sortBy'') c
           \<or> (\<exists>n. xs = limit_cursor n (sort_cursor (query req ''sortBy'') c))"
  using assms
  by (auto simp: list_services_def Let_def split: option.splits if_splits)

subsection \<open>The average rating\<close>

text \<open>
  A copy of the handler that reads the document after the update stores, on success, the
  mean of the ratings of the whole updated list, whatever the rating stored before.  A
  service just created holds no review and the rating 4.5.
\<close>

lemma matched_copy_recomputes_rating:
  assumes direct: "reads_updated_document v (findOneAndUpdate_returns L)"
    and ok: "add_review v L now req s = (Send p, s')"
  shows "\<exists>i before after.
             new_ObjectId L (Some (VStr (params_id req))) = Some i
           \<and> findOne (by_id i) (servicesCollection s) = Some before
           \<and> findOne (by_id i) (servicesCollection s') = Some after
           \<and> reviews_of after = reviews_of before @ [new_review L now req]
           \<and> after ''reviews'' = Some (VReviews (reviews_of after))
           \<and> after ''averageRating'' = Some (js_mean L (map rating (reviews_of after)))"
proof -
  let ?r = "new_review L now req"
  from ok obtain bk where bk:
      "findOne (qualifying_booking (decoded_email req) (params_id req)) (bookingsCollection s) = Some bk"
    by (cases "findOne (qualifying_booking (decoded_email req) (params_id req)) (bookingsCollection s)")
       (simp_all add: add_review_def)
  from ok bk obtain i where i: "new_ObjectId L (Some (VStr (params_id req))) = Some i"
    by (cases "new_ObjectId L (Some (VStr (params_id req)))") (simp_all add: add_review_def)
  from ok bk i obtain before where b: "findOne (by_id i) (servicesCollection s) = Some before"
    by (cases "findOne (by_id i) (servicesCollection s)") (simp_all add: add_review_def)
  from ok bk i b have h: "hasReviewed before (decoded_email req) = Some False"
    by (cases "hasReviewed before (decoded_email req)") (auto simp: add_review_def)
  from ok bk i b h obtain d' where d': "push_review ?r before = Some d'"
    by (cases "push_review ?r before") (simp_all add: add_review_def findOneAndUpdate_push_def)
  let ?rs = "reviews_of before @ [?r]"
  have d'_eq: "d' = before(''reviews'' \<mapsto> VReviews ?rs)"
    using d' by (rule push_review_Some)
  let ?c = "updateFirst (by_id i) (\<lambda>_. d') (servicesCollection s)"
  let ?avg = "js_mean L (map rating ?rs)"
  have bid: "by_id i before"
    using findOne_Some_mem [OF b] by simp
  have ur: "updated_reviews v (findOneAndUpdate_returns L) (Some d') = Some (Some (VReviews ?rs))"
    using direct by (simp add: updated_reviews_direct d'_eq)
  have s': "s' = s\<lparr>servicesCollection :=
                 updateOne_set (by_id i) [''averageRating'' \<mapsto> ?avg] ?c\<rparr>"
    using ok bk i b h d' ur
    by (simp add: add_review_def findOneAndUpdate_push_def foldl_rating js_mean_def Let_def)
  have f1: "findOne (by_id i) ?c = Some d'"
    using b bid by (simp add: find_updateFirst d'_eq)
  have f2: "findOne (by_id i) (servicesCollection s')
            = Some (d' ++ [''averageRating'' \<mapsto> ?avg])"
    unfolding s' updateOne_set_def using f1 by (simp add: find_updateFirst)
  show ?thesis
    using i b f2 by (simp add: d'_eq)
qed

lemma created_service_starts_at_default:
  assumes "create_service now fresh req s = (Send p, s')"
  shows "\<exists>created.
             servicesCollection s' = servicesCollection s @ [created]
           \<and> created ''reviews'' = Some (VReviews [])
           \<and> created ''averageRating'' = Some (VNum (9 / 2))"
  using assms
  by (auto simp: create_service_def insertOne_def Let_def split: option.splits if_splits)

text \<open>
  C1.  The two copies of the review handler are written for different drivers, and on
  the other driver neither recomputes the rating.  A service holds one review rated 4 and
  the rating 4; a reviewer with a pending booking sends a review rated 5.  The mean of
  the updated list is 4.5.  \<^verbatim>\<open>index.js\<close> on a driver that wraps the result answers
  success and leaves the rating 4.  \<^verbatim>\<open>server.js\<close> on a driver that returns the document
  appends the review and answers 500, the rating still 4; when the service document has
  a field \<^verbatim>\<open>value\<close> it answers success, the rating still 4.
\<close>

theorem stale_rating_after_successful_review:
  "serviceB ''averageRating'' = Some (VNum 4)
   \<and> reviews_of serviceB = [Review ''a@x.com'' (VStr ''Ann'') (VNum 4) None 3]
   \<and> js_mean lib0 [VNum 4, VNum 5] = VNum (9 / 2)
   \<and> add_review IndexJs (lib0\<lparr>findOneAndUpdate_returns := ModifyResult\<rparr>) 9 reqR dbR
     = (Send (Success ''Review added successfully''),
        dbR\<lparr>servicesCollection :=
          [serviceB(''reviews'' \<mapsto> VReviews
             [Review ''a@x.com'' (VStr ''Ann'') (VNum 4) None 3,
              Review ''c@x.com'' (VStr ''Anonymous'') (VNum 5) None 9])]\<rparr>)
   \<and> findOneAndUpdate_returns lib0 = Document
   \<and> add_review ServerJs lib0 9 reqR dbV
     = (Send (Success ''Review added successfully''),
        dbV\<lparr>servicesCollection :=
          [serviceV(''reviews'' \<mapsto> VReviews
             [Review ''a@x.com'' (VStr ''Ann'') (VNum 4) None 3,
              Review ''c@x.com'' (VStr ''Anonymous'') (VNum 5) None 9])]\<rparr>)
   \<and> add_review ServerJs lib0 9 reqR dbR
     = (Status 500 ''Failed to add review'',
        dbR\<lparr>servicesCollection :=
          [serviceB(''reviews'' \<mapsto> VReviews
             [Review ''a@x.com'' (VStr ''Ann'') (VNum 4) None 3,
              Review ''c@x.com'' (VStr ''Anonymous'') (VNum 5) None 9])]\<rparr>)
   \<and> (serviceB(''reviews'' \<mapsto> VReviews
             [Review ''a@x.com'' (VStr ''Ann'') (VNum 4) None 3,
              Review ''c@x.com'' (VStr ''Anonymous'') (VNum 5) None 9])) ''averageRating''
       = Some (VNum 4)
   \<and> (serviceV(''reviews'' \<mapsto> VReviews
             [Review ''a@x.com'' (VStr ''Ann'') (VNum 4) None 3,
              Review ''c@x.com'' (VStr ''Anonymous'') (VNum 5) None 9])) ''averageRating''
       = Some (VNum 4)"
  by (simp add: add_review_def fixtures store_defs qualifying_booking_def hasReviewed_def
        new_review_def reviews_of_def js_mean_def Let_def)

text \<open>
  On the driver it is written for, each copy stores 4.5 for the same request.
\<close>

lemma matched_copy_example:
  "(\<exists>after. findOne (by_id (Oid 1)) (servicesCollection (snd (add_review IndexJs lib0 9 reqR dbR)))
              = Some after
          \<and> after ''averageRating'' = Some (VNum (9 / 2)))
   \<and> (\<exists>after. findOne (by_id (Oid 1))
                (servicesCollection
                  (snd (add_review ServerJs (lib0\<lparr>findOneAndUpdate_returns := ModifyResult\<rparr>) 9
                          reqR dbR)))
              = Some after
          \<and> after ''averageRating'' = Some (VNum (9 / 2)))"
  by (simp add: add_review_def fixtures store_defs qualifying_booking_def hasReviewed_def
        new_review_def Let_def)

subsection \<open>Ownership of a service\<close>

text \<open>Neither handler depends on the identity the guard attached to the request.\<close>

lemma ownership_test_ignores_identity:
  "update_service L now (req\<lparr>decoded_email := e\<rparr>) s = update_service L now req s"
  "delete_service L (req\<lparr>decoded_email := e\<rparr>) s = delete_service L req s"
  by (simp_all add: update_service_def delete_service_def)

text \<open>
  C2.  The ownership test of update and delete never reads the decoded identity: it
  compares the stored provider email with the \<^verbatim>\<open>email\<close> parameter of the query string.
  A caller whose token decodes to \<open>m@x.com\<close> deletes, and patches, the service of
  \<open>p@x.com\<close> by sending \<^verbatim>\<open>?email=p@x.com\<close>, and the provider, with a valid token of
  their own and no such parameter, is answered 403.  The listing of one's own services
  does compare the parameter with the decoded identity and refuses the same request.
\<close>

theorem ownership_test_reads_query_parameter:
  "jwt_verify lib0 ''tok-m'' = Some ''m@x.com''
   \<and> serviceA ''providerEmail'' = Some (VStr ''p@x.com'')
   \<and> DELETE_service lib0 reqMallory dbDel
       = (Send (DeleteResult 1),
          \<lparr>servicesCollection = [serviceOther], bookingsCollection = [bookingE]\<rparr>)
   \<and> fst (PATCH_service lib0 9 reqMallory dbDel) = Send (UpdateResult 1)
   \<and> map (\<lambda>d. d ''price'') (servicesCollection (snd (PATCH_service lib0 9 reqMallory dbDel)))
       = [Some (VNum 1), Some (VNum 80)]
   \<and> jwt_verify lib0 ''tok-p'' = Some ''p@x.com''
   \<and> DELETE_service lib0 reqOwner dbDel = (Status 403 ''Forbidden access'', dbDel)
   \<and> PATCH_service lib0 9 reqOwner dbDel = (Status 403 ''Forbidden access'', dbDel)
   \<and> GET_my_services lib0 reqMallory dbDel = (Status 403 ''Forbidden access'', dbDel)"
  by (simp add: DELETE_service_def PATCH_service_def GET_my_services_def verifyJWT_def
      delete_service_def update_service_def my_services_def
      delete_related_bookings_def delete_service_document_def
      fixtures store_defs Let_def)

subsection \<open>Bookings\<close>




text \<open>
  C4.  A create-booking request whose customer email is the provider email of the
  service it names is answered 400 "You cannot book your own service"
  (InvalidOperation), and the store is left as it was.
\<close>

theorem self_booking_rejected:
  assumes "new_ObjectId L (body req ''serviceId'') = Some i"
    and "findOne (by_id i) (servicesCollection s) = Some service"
    and "service ''providerEmail'' = Some (VStr e)"
    and "body req ''userEmail'' = Some (VStr e)"
  shows "create_booking L now fresh req s = (Status 400 ''You cannot book your own service'', s)
       \<and> fails_with InvalidOperation (fst (create_booking L now fresh req s))"
  using assms by (simp add: create_booking_def status_kind_def)

theorem self_booking_rejected_witness:
  "create_booking lib0 7 (Oid 11) reqSelf dbS
     = (Status 400 ''You cannot book your own service'', dbS)
   \<and> fails_with InvalidOperation (fst (create_booking lib0 7 (Oid 11) reqSelf dbS))"
proof -
  have a: "new_ObjectId lib0 (body reqSelf ''serviceId'') = Some (Oid 1)"
    by (simp add: fixtures)
  have b: "findOne (by_id (Oid 1)) (servicesCollection dbS) = Some serviceA"
    by (simp add: fixtures store_defs)
  have c: "serviceA ''providerEmail'' = Some (VStr ''p@x.com'')"
    by (simp add: fixtures)
  have d: "body reqSelf ''userEmail'' = Some (VStr ''p@x.com'')"
    by (simp add: fixtures)
  from self_booking_rejected [OF a b c d] show ?thesis .
qed

text \<open>
  C8.  Two create-booking requests with the same body, sent with two valid tokens, have
  the same outcome, whatever emails the tokens decode to; and the customer email of the
  booking that is stored is the one of the body.
\<close>

theorem booking_ignores_token_identity:
  assumes "authorization r1 = Some a1" and "authorization r2 = Some a2"
    and "second (split_space a1) = Some t1" and "second (split_space a2) = Some t2"
    and "jwt_verify L t1 = Some e1" and "jwt_verify L t2 = Some e2"
    and "body r2 = body r1"
  shows "POST_bookings L now fresh r1 s = POST_bookings L now fresh r2 s
       \<and> (\<forall>i' s'. POST_bookings L now fresh r1 s = (Send (InsertOneResult i'), s')
            \<longrightarrow> (\<exists>created. bookingsCollection s' = bookingsCollection s @ [created]
                   \<and> created ''userEmail'' = body r1 ''userEmail''))"
proof -
  have p1: "POST_bookings L now fresh r1 s = create_booking L now fresh r1 s"
    unfolding POST_bookings_def verifyJWT_accepts [OF assms(1,3,5)]
    by (rule create_booking_reads_body) simp
  have p2: "POST_bookings L now fresh r2 s = create_booking L now fresh r1 s"
    unfolding POST_bookings_def verifyJWT_accepts [OF assms(2,4,6)]
    by (rule create_booking_reads_body) (simp add: assms(7))
  have "\<exists>created. bookingsCollection s' = bookingsCollection s @ [created]
                   \<and> created ''userEmail'' = body r1 ''userEmail''"
    if "create_booking L now fresh r1 s = (Send (InsertOneResult i'), s')" for i' s'
    using that
    by (auto simp: create_booking_def insertOne_def Let_def
        split: option.splits if_splits)
  then show ?thesis using p1 p2 by simp
qed

text \<open>
  The token of \<open>m@x.com\<close> and the token of \<open>c@x.com\<close> both store a booking in the name
  of \<open>c@x.com\<close>.
\<close>

theorem booking_ignores_token_identity_witness:
  "jwt_verify lib0 ''tok-m'' = Some ''m@x.com'' \<and> jwt_verify lib0 ''tok-c'' = Some ''c@x.com''
   \<and> POST_bookings lib0 7 (Oid 11) (reqBook ''Bearer tok-m'') dbS
      = POST_bookings lib0 7 (Oid 11) (reqBook ''Bearer tok-c'') dbS
   \<and> POST_bookings lib0 7 (Oid 11) (reqBook ''Bearer tok-m'') dbS
      = (Send (InsertOneResult (VOid (Oid 11))),
         dbS\<lparr>bookingsCollection :=
           [[''serviceId'' \<mapsto> VStr ''s1'', ''userEmail'' \<mapsto> VStr ''c@x.com'', ''createdAt'' \<mapsto> VDate 7,
             ''status'' \<mapsto> VStr ''pending'', ''_id'' \<mapsto> VOid (Oid 11)]]\<rparr>)"
proof -
  have a1: "authorization (reqBook ''Bearer tok-m'') = Some ''Bearer tok-m''"
    and a2: "authorization (reqBook ''Bearer tok-c'') = Some ''Bearer tok-c''"
    and b: "body (reqBook ''Bearer tok-c'') = body (reqBook ''Bearer tok-m'')"
    by (simp_all add: reqBook_def req0_def)
  have t1: "second (split_space ''Bearer tok-m'') = Some ''tok-m''"
    and t2: "second (split_space ''Bearer tok-c'') = Some ''tok-c''"
    by simp_all
  have e1: "jwt_verify lib0 ''tok-m'' = Some ''m@x.com''"
    and e2: "jwt_verify lib0 ''tok-c'' = Some ''c@x.com''"
    by (simp_all add: lib0_def)
  have run: "POST_bookings lib0 7 (Oid 11) (reqBook ''Bearer tok-c'') dbS
      = (Send (InsertOneResult (VOid (Oid 11))),
         dbS\<lparr>bookingsCollection :=
           [[''serviceId'' \<mapsto> VStr ''s1'', ''userEmail'' \<mapsto> VStr ''c@x.com'', ''createdAt'' \<mapsto> VDate 7,
             ''status'' \<mapsto> VStr ''pending'', ''_id'' \<mapsto> VOid (Oid 11)]]\<rparr>)"
    by (simp add: POST_bookings_def verifyJWT_def create_booking_def existing_booking_def
        fixtures store_defs Let_def)
  from booking_ignores_token_identity [OF a1 a2 t1 t2 e1 e2 b, of 7 "Oid 11" dbS] run e1 e2
  show ?thesis by simp
qed

subsection \<open>Reviews\<close>

text \<open>
  C5.  When no booking of the reviewer for the service has the status pending or
  completed (none at all, or only cancelled ones), add-review is answered 403 "You must
  book this service before reviewing" (Forbidden) and the store, the review list of the
  service with it, is left as it was.
\<close>

theorem review_requires_booking:
  assumes "\<forall>b \<in> set (bookingsCollection s).
             \<not> (b ''userEmail'' = Some (VStr (decoded_email req))
                \<and> b ''serviceId'' = Some (VStr (params_id req))
                \<and> (b ''status'' = Some (VStr ''pending'')
                   \<or> b ''status'' = Some (VStr ''completed'')))"
  shows "add_review v L now req s = (Status 403 ''You must book this service before reviewing'', s)
       \<and> fails_with Forbidden (fst (add_review v L now req s))"
proof -
  have "findOne (qualifying_booking (decoded_email req) (params_id req)) (bookingsCollection s) = None"
    using assms by (auto simp: findOne_None_iff qualifying_booking_def q_in_def)
  then show ?thesis by (simp add: add_review_def status_kind_def)
qed

text \<open>The reviewer holds one booking for the service, and it is cancelled.\<close>

theorem review_requires_booking_witness:
  "bookingsCollection dbCancelled = [bookingC ''cancelled'']
   \<and> add_review IndexJs lib0 9 reqR dbCancelled
       = (Status 403 ''You must book this service before reviewing'', dbCancelled)
   \<and> add_review ServerJs lib0 9 reqR dbS
       = (Status 403 ''You must book this service before reviewing'', dbS)"
proof -
  have a: "\<forall>b \<in> set (bookingsCollection dbCancelled).
             \<not> (b ''userEmail'' = Some (VStr (decoded_email reqR))
                \<and> b ''serviceId'' = Some (VStr (params_id reqR))
                \<and> (b ''status'' = Some (VStr ''pending'')
                   \<or> b ''status'' = Some (VStr ''completed'')))"
    by (simp add: fixtures)
  have b: "\<forall>b \<in> set (bookingsCollection dbS).
             \<not> (b ''userEmail'' = Some (VStr (decoded_email reqR))
                \<and> b ''serviceId'' = Some (VStr (params_id reqR))
                \<and> (b ''status'' = Some (VStr ''pending'')
                   \<or> b ''status'' = Some (VStr ''completed'')))"
    by (simp add: fixtures)
  have c: "bookingsCollection dbCancelled = [bookingC ''cancelled'']"
    by (simp add: dbCancelled_def)
  from review_requires_booking [OF a, of IndexJs lib0 9]
    review_requires_booking [OF b, of ServerJs lib0 9] c
  show ?thesis by simp
qed




subsection \<open>Deleting a service\<close>

text \<open>
  What the cascade removes: a successful deletion leaves no booking whose stored
  \<^verbatim>\<open>serviceId\<close> is the string of the request, keeps the others, and removes the service
  document from the state the cascade left.
\<close>

lemma delete_removes_bookings_with_request_id:
  assumes "delete_service L req s = (Send p, s')"
  shows "(\<forall>b \<in> set (bookingsCollection s'). b ''serviceId'' \<noteq> Some (VStr (params_id req)))
       \<and> bookingsCollection s'
           = filter (\<lambda>b. b ''serviceId'' \<noteq> Some (VStr (params_id req))) (bookingsCollection s)
       \<and> (\<exists>i service.
             new_ObjectId L (Some (VStr (params_id req))) = Some i
           \<and> findOne (by_id i) (servicesCollection s) = Some service
           \<and> findOne (by_id i) (servicesCollection (delete_related_bookings (params_id req) s))
               = Some service
           \<and> (\<forall>b \<in> set (bookingsCollection (delete_related_bookings (params_id req) s)).
                 b ''serviceId'' \<noteq> Some (VStr (params_id req)))
           \<and> s' = delete_service_document i (delete_related_bookings (params_id req) s)
           \<and> servicesCollection s' = deleteOne (by_id i) (servicesCollection s)
           \<and> Suc (length (servicesCollection s')) = length (servicesCollection s)
           \<and> p = DeleteResult 1)"
proof -
  from assms obtain i where i: "new_ObjectId L (Some (VStr (params_id req))) = Some i"
    by (cases "new_ObjectId L (Some (VStr (params_id req)))") (simp_all add: delete_service_def)
  from assms i obtain service where sv: "findOne (by_id i) (servicesCollection s) = Some service"
    by (cases "findOne (by_id i) (servicesCollection s)") (simp_all add: delete_service_def)
  from assms i sv
  have own: "strict_eq (service ''providerEmail'') (map_option VStr (query req ''email''))"
    by (auto simp: delete_service_def split: if_splits)
  have ex: "list_ex (by_id i) (servicesCollection s)"
    using findOne_Some_mem [OF sv] by (auto simp: list_ex_iff)
  from assms i sv own ex
  have s': "s' = delete_service_document i (delete_related_bookings (params_id req) s)"
    and p: "p = DeleteResult 1"
    by (simp_all add: delete_service_def Let_def matchedCount_def delete_related_bookings_def)
  show ?thesis
    using i sv p deleteOne_length [OF sv]
    by (auto simp: s' delete_service_document_def delete_related_bookings_def deleteMany_def)
qed

text \<open>
  C7.  The cascade compares strings, where the other handlers resolve the \<^verbatim>\<open>serviceId\<close>
  of a booking through the identifier constructor.  A customer books the service under
  the spelling \<open>S1\<close> of its identifier; the owner deletes the service under the spelling
  \<open>s1\<close>: the deletion succeeds, the service is gone, and the booking of the deleted
  service is still stored.  The same happens to a booking stored under \<open>s1\<close> when the
  request spells the identifier \<open>S1\<close>.
\<close>

theorem delete_leaves_booking_of_deleted_service:
  "new_ObjectId lib0 (Some (VStr ''s1'')) = Some (Oid 1)
   \<and> new_ObjectId lib0 (Some (VStr ''S1'')) = Some (Oid 1)
   \<and> serviceA ''_id'' = Some (VOid (Oid 1))
   \<and> create_booking lib0 7 (Oid 11) reqBookUpper dbS
       = (Send (InsertOneResult (VOid (Oid 11))), dbS\<lparr>bookingsCollection := [bookingUpper]\<rparr>)
   \<and> bookingUpper ''serviceId'' = Some (VStr ''S1'')
   \<and> delete_service lib0 reqDel (dbS\<lparr>bookingsCollection := [bookingUpper]\<rparr>)
       = (Send (DeleteResult 1), \<lparr>servicesCollection = [], bookingsCollection = [bookingUpper]\<rparr>)
   \<and> bookingC ''pending'' ''serviceId'' = Some (VStr ''s1'')
   \<and> delete_service lib0 (reqDel\<lparr>params_id := ''S1''\<rparr>) dbBooked
       = (Send (DeleteResult 1),
          \<lparr>servicesCollection = [], bookingsCollection = [bookingC ''pending'']\<rparr>)"
  by (simp add: create_booking_def existing_booking_def delete_service_def
      delete_related_bookings_def delete_service_document_def fixtures store_defs Let_def)

subsection \<open>Listing services\<close>

text \<open>
  C9, as amended.  The services returned for the sort selector \<^verbatim>\<open>rating\<close> are in
  descending order of \<^verbatim>\<open>averageRating\<close>, for \<^verbatim>\<open>price-asc\<close> in ascending and for
  \<^verbatim>\<open>price-desc\<close> in descending order of \<^verbatim>\<open>price\<close>: in the sort order of the store, which
  on two numbers is their order.
\<close>

theorem listing_sorted_by_selector:
  assumes "list_services L req s = (Send (Services xs), s')"
  shows "(query req ''sortBy'' = Some ''rating''
            \<longrightarrow> descending_by ''averageRating'' xs
              \<and> (\<forall>m n a b. m < n \<longrightarrow> n < length xs
                    \<longrightarrow> (xs ! m) ''averageRating'' = Some (VNum a)
                    \<longrightarrow> (xs ! n) ''averageRating'' = Some (VNum b) \<longrightarrow> b \<le> a))
       \<and> (query req ''sortBy'' = Some ''price-asc''
            \<longrightarrow> ascending_by ''price'' xs
              \<and> (\<forall>m n a b. m < n \<longrightarrow> n < length xs
                    \<longrightarrow> (xs ! m) ''price'' = Some (VNum a)
                    \<longrightarrow> (xs ! n) ''price'' = Some (VNum b) \<longrightarrow> a \<le> b))
       \<and> (query req ''sortBy'' = Some ''price-desc''
            \<longrightarrow> descending_by ''price'' xs
              \<and> (\<forall>m n a b. m < n \<longrightarrow> n < length xs
                    \<longrightarrow> (xs ! m) ''price'' = Some (VNum a)
                    \<longrightarrow> (xs ! n) ''price'' = Some (VNum b) \<longrightarrow> b \<le> a))"
proof -
  from list_services_result [OF assms] obtain c where
    xs: "xs = sort_cursor (query req ''sortBy'') c
         \<or> (\<exists>n. xs = limit_cursor n (sort_cursor (query req ''sortBy'') c))"
    by blast
  have r: "descending_by ''averageRating'' xs" if "query req ''sortBy'' = Some ''rating''"
    using xs that by (auto simp: sort_cursor_def sort_desc_descending limit_descending)
  have pa: "ascending_by ''price'' xs" if "query req ''sortBy'' = Some ''price-asc''"
    using xs that by (auto simp: sort_cursor_def sort_asc_ascending limit_ascending)
  have pd: "descending_by ''price'' xs" if "query req ''sortBy'' = Some ''price-desc''"
    using xs that by (auto simp: sort_cursor_def sort_desc_descending limit_descending)
  show ?thesis
    using r pa pd descending_numbers ascending_numbers by blast
qed

theorem listing_sorted_by_selector_witness:
  "list_services lib0 (reqSort ''rating'') dbDel = (Send (Services [serviceOther, serviceA]), dbDel)
   \<and> descending_by ''averageRating'' [serviceOther, serviceA]
   \<and> list_services lib0 (reqSort ''price-asc'') dbDel = (Send (Services [serviceA, serviceOther]), dbDel)
   \<and> ascending_by ''price'' [serviceA, serviceOther]
   \<and> list_services lib0 (reqSort ''price-desc'') dbDel = (Send (Services [serviceOther, serviceA]), dbDel)
   \<and> descending_by ''price'' [serviceOther, serviceA]"
proof -
  have k: "bson_key (serviceA ''averageRating'') = (4, 9 / 2, [])"
      "bson_key (serviceOther ''averageRating'') = (4, 5, [])"
      "bson_key (serviceA ''price'') = (4, 30, [])"
      "bson_key (serviceOther ''price'') = (4, 80, [])"
    by (simp_all add: serviceA_def serviceOther_def)
  have q: "services_query (reqSort sel) (\<lambda>_. True) lo hi d" for sel lo hi d
    by (simp add: services_query_def reqSort_def req0_def)
  have sd: "sort_desc ''averageRating'' [serviceA, serviceOther] = [serviceOther, serviceA]"
    and pa: "sort_asc ''price'' [serviceA, serviceOther] = [serviceA, serviceOther]"
    and pd: "sort_desc ''price'' [serviceA, serviceOther] = [serviceOther, serviceA]"
    by (simp_all add: sort_desc_def sort_asc_def k)
  have sel: "query (reqSort sel) ''sortBy'' = Some sel" "query (reqSort sel) ''search'' = None"
     "query (reqSort sel) ''limit'' = None" for sel
    by (simp_all add: reqSort_def req0_def)
  have r1: "list_services lib0 (reqSort ''rating'') dbDel
            = (Send (Services [serviceOther, serviceA]), dbDel)"
    and r2: "list_services lib0 (reqSort ''price-asc'') dbDel
            = (Send (Services [serviceA, serviceOther]), dbDel)"
    and r3: "list_services lib0 (reqSort ''price-desc'') dbDel
            = (Send (Services [serviceOther, serviceA]), dbDel)"
    by (simp_all add: list_services_def sort_cursor_def q sel sd pa pd dbDel_def Let_def)
  from listing_sorted_by_selector [OF r1] listing_sorted_by_selector [OF r2]
    listing_sorted_by_selector [OF r3] r1 r2 r3 sel
  show ?thesis by simp
qed

text \<open>
  As first stated the claim fails: the handler knows no selector \<^verbatim>\<open>rating-desc\<close>, and
  returns the services in stored order, here the rating 4.5 before the rating 5.
\<close>

theorem rating_desc_selector_counterexample:
  "list_services lib0 (reqSort ''rating-desc'') dbDel
     = (Send (Services [serviceA, serviceOther]), dbDel)
   \<and> serviceA ''averageRating'' = Some (VNum (9 / 2))
   \<and> serviceOther ''averageRating'' = Some (VNum 5)
   \<and> \<not> descending_by ''averageRating'' [serviceA, serviceOther]"
proof -
  have q: "services_query (reqSort sel) (\<lambda>_. True) lo hi d" for sel lo hi d
    by (simp add: services_query_def reqSort_def req0_def)
  have sel: "query (reqSort sel) ''sortBy'' = Some sel" "query (reqSort sel) ''search'' = None"
     "query (reqSort sel) ''limit'' = None" for sel
    by (simp_all add: reqSort_def req0_def)
  have "list_services lib0 (reqSort ''rating-desc'') dbDel
     = (Send (Services [serviceA, serviceOther]), dbDel)"
    by (simp add: list_services_def sort_cursor_def q sel dbDel_def Let_def)
  moreover have "serviceA ''averageRating'' = Some (VNum (9 / 2))"
    and "serviceOther ''averageRating'' = Some (VNum 5)"
    by (simp_all add: serviceA_def serviceOther_def)
  ultimately show ?thesis
    by (simp add: descending_by_def)
qed

subsection \<open>Updating a service\<close>

text \<open>
  C10.  After a successful update the service document has the identifier it had, whatever
  \<^verbatim>\<open>_id\<close> the payload carried; its \<^verbatim>\<open>updatedAt\<close> is the time of the update; every field
  the payload does not supply, \<^verbatim>\<open>updatedAt\<close> apart, has the value it had; every other
  field the payload supplies has the payload's value; and the bookings are untouched.
\<close>

theorem update_is_partial_merge:
  assumes "update_service L now req s = (Send p, s')"
  shows "\<exists>i before after.
           new_ObjectId L (Some (VStr (params_id req))) = Some i
         \<and> findOne (by_id i) (servicesCollection s) = Some before
         \<and> findOne (by_id i) (servicesCollection s') = Some after
         \<and> after ''_id'' = before ''_id''
         \<and> after ''updatedAt'' = Some (VDate now)
         \<and> (\<forall>k. k \<notin> dom (body req) \<longrightarrow> k \<noteq> ''updatedAt'' \<longrightarrow> after k = before k)
         \<and> (\<forall>k. k \<in> dom (body req) \<longrightarrow> k \<noteq> ''_id'' \<longrightarrow> k \<noteq> ''updatedAt''
                \<longrightarrow> after k = body req k)
         \<and> servicesCollection s'
             = updateFirst (by_id i) (\<lambda>d. d ++ (body req)(''_id'' := None, ''updatedAt'' \<mapsto> VDate now))
                 (servicesCollection s)
         \<and> bookingsCollection s' = bookingsCollection s"
proof -
  from assms obtain i where i: "new_ObjectId L (Some (VStr (params_id req))) = Some i"
    by (cases "new_ObjectId L (Some (VStr (params_id req)))") (simp_all add: update_service_def)
  from assms i obtain before where b: "findOne (by_id i) (servicesCollection s) = Some before"
    by (cases "findOne (by_id i) (servicesCollection s)") (simp_all add: update_service_def)
  let ?u = "(body req)(''_id'' := None, ''updatedAt'' \<mapsto> VDate now)"
  from assms i b
  have s': "s' = s\<lparr>servicesCollection := updateOne_set (by_id i) ?u (servicesCollection s)\<rparr>"
    by (auto simp: update_service_def Let_def split: if_splits)
  have f: "findOne (by_id i) (servicesCollection s') = Some (before ++ ?u)"
    unfolding s' updateOne_set_def using b by (simp add: find_updateFirst)
  have id: "(before ++ ?u) ''_id'' = before ''_id''"
    by (simp add: map_add_def)
  have stamp: "(before ++ ?u) ''updatedAt'' = Some (VDate now)"
    by (simp add: map_add_def)
  have keep: "(before ++ ?u) k = before k" if "k \<notin> dom (body req)" "k \<noteq> ''updatedAt''" for k
    using that by (simp add: map_add_def domIff)
  have take: "(before ++ ?u) k = body req k"
    if "k \<in> dom (body req)" "k \<noteq> ''_id''" "k \<noteq> ''updatedAt''" for k
    using that by (auto simp: map_add_def)
  have c: "servicesCollection s' = updateFirst (by_id i) (\<lambda>d. d ++ ?u) (servicesCollection s)"
    and bk: "bookingsCollection s' = bookingsCollection s"
    by (simp_all add: s' updateOne_set_def)
  show ?thesis
  proof (intro exI conjI allI impI)
    show "new_ObjectId L (Some (VStr (params_id req))) = Some i" by (rule i)
    show "findOne (by_id i) (servicesCollection s) = Some before" by (rule b)
    show "findOne (by_id i) (servicesCollection s') = Some (before ++ ?u)" by (rule f)
    show "(before ++ ?u) ''_id'' = before ''_id''" by (rule id)
    show "(before ++ ?u) ''updatedAt'' = Some (VDate now)" by (rule stamp)
    show "(before ++ ?u) k = before k" if "k \<notin> dom (body req)" "k \<noteq> ''updatedAt''" for k
      using that by (rule keep)
    show "(before ++ ?u) k = body req k"
      if "k \<in> dom (body req)" "k \<noteq> ''_id''" "k \<noteq> ''updatedAt''" for k
      using that by (rule take)
    show "servicesCollection s' = updateFirst (by_id i) (\<lambda>d. d ++ ?u) (servicesCollection s)"
      by (rule c)
    show "bookingsCollection s' = bookingsCollection s" by (rule bk)
  qed
qed

text \<open>
  The payload carries an \<^verbatim>\<open>_id\<close> and a price: the identifier stays, the price changes,
  the name and the provider stay.
\<close>

theorem update_is_partial_merge_witness:
  "\<exists>after. findOne (by_id (Oid 1)) (servicesCollection (snd (update_service lib0 9 reqPatch dbDel)))
            = Some after
         \<and> after ''_id'' = Some (VOid (Oid 1))
         \<and> after ''updatedAt'' = Some (VDate 9)
         \<and> after ''price'' = Some (VNum 45)
         \<and> after ''serviceName'' = Some (VStr ''Plumbing'')
         \<and> after ''providerEmail'' = Some (VStr ''p@x.com'')"
proof -
  have run: "update_service lib0 9 reqPatch dbDel
             = (Send (UpdateResult 1), snd (update_service lib0 9 reqPatch dbDel))"
    by (simp add: update_service_def fixtures store_defs Let_def)
  have b: "findOne (by_id (Oid 1)) (servicesCollection dbDel) = Some serviceA"
    by (simp add: fixtures store_defs)
  have i: "new_ObjectId lib0 (Some (VStr (params_id reqPatch))) = Some (Oid 1)"
    by (simp add: fixtures)
  have d: "dom (body reqPatch) = {''_id'', ''price''}" "body reqPatch ''price'' = Some (VNum 45)"
    by (auto simp: fixtures)
  have a: "serviceA ''_id'' = Some (VOid (Oid 1))" "serviceA ''serviceName'' = Some (VStr ''Plumbing'')"
     "serviceA ''providerEmail'' = Some (VStr ''p@x.com'')"
    by (simp_all add: serviceA_def)
  from update_is_partial_merge [OF run] obtain j before after where
    j: "new_ObjectId lib0 (Some (VStr (params_id reqPatch))) = Some j"
    and bf: "findOne (by_id j) (servicesCollection dbDel) = Some before"
    and af: "findOne (by_id j) (servicesCollection (snd (update_service lib0 9 reqPatch dbDel)))
             = Some after"
    and id: "after ''_id'' = before ''_id''"
    and stamp: "after ''updatedAt'' = Some (VDate 9)"
    and keep: "\<forall>k. k \<notin> dom (body reqPatch) \<longrightarrow> k \<noteq> ''updatedAt'' \<longrightarrow> after k = before k"
    and take: "\<forall>k. k \<in> dom (body reqPatch) \<longrightarrow> k \<noteq> ''_id'' \<longrightarrow> k \<noteq> ''updatedAt''
                \<longrightarrow> after k = body reqPatch k"
    by blast
  from j i have ji: "j = Oid 1" by simp
  from bf b ji have bb: "before = serviceA" by simp
  have "after ''_id'' = Some (VOid (Oid 1))"
    using id bb a by simp
  moreover have "after ''price'' = Some (VNum 45)"
    using take d by simp
  moreover have "after ''serviceName'' = Some (VStr ''Plumbing'')"
    using keep d a bb by simp
  moreover have "after ''providerEmail'' = Some (VStr ''p@x.com'')"
    using keep d a bb by simp
  ultimately show ?thesis
    using af ji stamp by simp
qed

end
